theory Spec2Isabelle
  imports Complex_Main "HOL-Library.AList"
begin

section \<open>Python values\<close>

text \<open>
  The two files at hand compute nothing themselves: \<open>trax/models/rl.py\<close> calls the
  constructors of the layer library (\<open>trax.layers\<close>, imported as \<open>tl\<close>) and of
  \<open>trax.models\<close>; \<open>trax/supervised/inputs_test.py\<close> calls gin, TensorFlow, the T5
  preprocessors and the module under test. None of these libraries is among the sources.
  Values are therefore the literals of the two files, lists and tuples of values,
  references to a module's attribute (\<open>t5_processors.denoise\<close> is
  \<open>Attr ''t5_processors'' ''denoise''\<close>), and the symbolic result
  \<open>Call m f [a1, ...] [(k1, v1), ...]\<close> of a call \<open>m.f(a1, ..., k1=v1, ...)\<close>.
\<close>

datatype pyval =
    PNone
  | PBool bool
  | PInt int
  | PFloat rat
  | PStr string
  | PList "pyval list"
  | PTuple "pyval list"
  | PDict "(pyval \<times> pyval) list"
  | Attr string string
  | Call string string "pyval list" "(string \<times> pyval) list"

type_synonym kwargs = "(string \<times> pyval) list"

text \<open>An exception is a Python object as well.\<close>

type_synonym exn = pyval

section \<open>Effects: a world, and exceptions as values\<close>

text \<open>
  A piece of Python code runs in a world \<open>'w\<close> (everything outside the code: module
  globals, the gin configuration, files) and either raises (\<open>Inl e\<close>) or returns
  (\<open>Inr v\<close>), leaving a world behind. \<open>bnd\<close> is sequencing: what follows a raising step is
  not run. Python evaluates the arguments of a call from left to right before the call
  itself, so \<open>f(g(), h())\<close> is \<open>bnd g (\<lambda>x. bnd h (\<lambda>y. f x y))\<close>.
\<close>

type_synonym ('w, 'a) eff = "'w \<Rightarrow> (exn + 'a) \<times> 'w"

definition ret :: "'a \<Rightarrow> ('w, 'a) eff" where
  "ret x = (\<lambda>w. (Inr x, w))"

definition bnd :: "('w, 'a) eff \<Rightarrow> ('a \<Rightarrow> ('w, 'b) eff) \<Rightarrow> ('w, 'b) eff" where
  "bnd m f = (\<lambda>w. case m w of (Inl e, w') \<Rightarrow> (Inl e, w') | (Inr x, w') \<Rightarrow> f x w')"

text \<open>
  The libraries are a parameter: \<open>ext m f args kw\<close> is what the call
  \<open>m.f(*args, **kw)\<close> does. A \<open>body\<close>, \<open>normalizer\<close> or \<open>value_top\<close> argument is a
  callable that is called as \<open>f(mode=mode)\<close>, and \<open>policy_top\<close> is called as
  \<open>policy_top(policy_distribution=..., mode=mode)\<close>.
\<close>

type_synonym 'w extern = "string \<Rightarrow> string \<Rightarrow> pyval list \<Rightarrow> kwargs \<Rightarrow> ('w, pyval) eff"

type_synonym 'w layer_fn = "pyval \<Rightarrow> ('w, pyval) eff"

text \<open>A policy distribution is used through its attribute \<open>n_inputs\<close> only.\<close>

record policy_distribution =
  n_inputs :: int

type_synonym 'w policy_top_fn = "policy_distribution \<Rightarrow> pyval \<Rightarrow> ('w, pyval) eff"

section \<open>The factories of rl.py\<close>

definition Policy ::
  "'w extern \<Rightarrow> policy_distribution \<Rightarrow> 'w layer_fn option \<Rightarrow> 'w layer_fn option \<Rightarrow>
   pyval \<Rightarrow> pyval \<Rightarrow> ('w, pyval) eff" where
  "Policy ext policy_distribution body normalizer head_init_range mode =
    (let body = (case body of None \<Rightarrow> (\<lambda>mode. ret (PList [])) | Some f \<Rightarrow> f);
         normalizer = (case normalizer of None \<Rightarrow> (\<lambda>mode. ret (PList [])) | Some f \<Rightarrow> f)
     in bnd (if head_init_range \<noteq> PNone
             then bnd (ext ''tl'' ''RandomUniformInitializer'' [] [(''lim'', head_init_range)])
                    (\<lambda>init. ret (AList.update ''kernel_initializer'' init []))
             else ret [])
          (\<lambda>head_kwargs.
        bnd (normalizer mode) (\<lambda>n.
        bnd (body mode) (\<lambda>b.
        bnd (ext ''tl'' ''Dense'' [PInt (n_inputs policy_distribution)] head_kwargs) (\<lambda>head.
        ext ''tl'' ''Serial'' [n, b, head] [])))))"

definition ActionInjector :: "'w extern \<Rightarrow> bool \<Rightarrow> int \<Rightarrow> int \<Rightarrow> pyval \<Rightarrow> ('w, pyval) eff" where
  "ActionInjector ext inject_actions inject_actions_n_layers inject_actions_dim mode =
    (if inject_actions
     then bnd (ext ''tl'' ''Dense'' [PInt inject_actions_dim] []) (\<lambda>d1.
          bnd (ext ''tl'' ''Dense'' [PInt inject_actions_dim] []) (\<lambda>d2.
          bnd (ext ''tl'' ''Parallel'' [d1, d2] []) (\<lambda>par.
          bnd (ext ''tl'' ''Add'' [] []) (\<lambda>add.
          bnd (ext ''models'' ''PureMLP'' []
                 [(''layer_widths'',
                     PTuple (replicate (nat inject_actions_n_layers) (PInt inject_actions_dim))),
                  (''out_activation'', PBool True),
                  (''flatten'', PBool False),
                  (''mode'', mode)]) (\<lambda>mlp.
          ext ''tl'' ''Serial'' [par, add, mlp] [])))))
     else ret (PList []))"

definition Value ::
  "'w extern \<Rightarrow> 'w layer_fn option \<Rightarrow> 'w layer_fn option \<Rightarrow> bool \<Rightarrow> int \<Rightarrow> int \<Rightarrow>
   pyval \<Rightarrow> ('w, pyval) eff" where
  "Value ext body normalizer inject_actions inject_actions_n_layers inject_actions_dim mode =
    (let body = (case body of None \<Rightarrow> (\<lambda>mode. ret (PList [])) | Some f \<Rightarrow> f);
         normalizer = (case normalizer of None \<Rightarrow> (\<lambda>mode. ret (PList [])) | Some f \<Rightarrow> f)
     in bnd (normalizer mode) (\<lambda>n.
        bnd (body mode) (\<lambda>b.
        bnd (ActionInjector ext inject_actions inject_actions_n_layers inject_actions_dim mode)
          (\<lambda>inj.
        bnd (ext ''tl'' ''Dense'' [PInt 1] []) (\<lambda>head.
        ext ''tl'' ''Serial'' [n, b, inj, head] [])))))"

definition PolicyAndValue ::
  "'w extern \<Rightarrow> policy_distribution \<Rightarrow> 'w layer_fn option \<Rightarrow> 'w policy_top_fn \<Rightarrow> 'w layer_fn \<Rightarrow>
   'w layer_fn option \<Rightarrow> pyval \<Rightarrow> pyval \<Rightarrow> ('w, pyval) eff" where
  "PolicyAndValue ext policy_distribution body policy_top value_top normalizer
       head_init_range mode =
    bnd (if head_init_range \<noteq> PNone
         then bnd (ext ''tl'' ''RandomUniformInitializer'' [] [(''lim'', head_init_range)])
                (\<lambda>init. ret (AList.update ''kernel_initializer'' init []))
         else ret [])
      (\<lambda>head_kwargs.
    (let normalizer = (case normalizer of None \<Rightarrow> (\<lambda>mode. ret (PList [])) | Some f \<Rightarrow> f);
         body = (case body of None \<Rightarrow> (\<lambda>mode. ret (PList [])) | Some f \<Rightarrow> f)
     in bnd (normalizer mode) (\<lambda>n.
        bnd (body mode) (\<lambda>b.
        bnd (policy_top policy_distribution mode) (\<lambda>p.
        bnd (value_top mode) (\<lambda>v.
        bnd (ext ''tl'' ''Branch'' [p, v] []) (\<lambda>branch.
        ext ''tl'' ''Serial'' [n, b, branch] [])))))))"

text \<open>
  The defaults \<open>policy_top=Policy\<close> and \<open>value_top=Value\<close>: \<open>PolicyAndValue\<close> passes them
  \<open>policy_distribution\<close> and \<open>mode\<close> only, so their other parameters take their own
  defaults (\<open>body=None\<close>, \<open>normalizer=None\<close>, \<open>head_init_range=None\<close>,
  \<open>inject_actions=False\<close>, \<open>inject_actions_n_layers=1\<close>, \<open>inject_actions_dim=64\<close>).
\<close>

definition default_policy_top :: "'w extern \<Rightarrow> 'w policy_top_fn" where
  "default_policy_top ext = (\<lambda>policy_distribution mode.
     Policy ext policy_distribution None None PNone mode)"

definition default_value_top :: "'w extern \<Rightarrow> 'w layer_fn" where
  "default_value_top ext = (\<lambda>mode. Value ext None None False 1 64 mode)"

section \<open>The gin configuration of inputs_test.py\<close>

definition t5_gin_config :: "'w extern \<Rightarrow> ('w, pyval) eff" where
  "t5_gin_config ext =
    (let noise_density = PFloat (15 / 100);
         max_input_length = PInt 50
     in bnd (ext ''gin'' ''bind_parameter''
               [PStr ''unsupervised.preprocessors'',
                PList [Attr ''t5_processors'' ''select_random_chunk'',
                       Attr ''t5_processors'' ''reduce_concat_tokens'',
                       Attr ''t5_processors'' ''split_tokens'',
                       Attr ''t5_processors'' ''denoise'']] []) (\<lambda>_.
        bnd (ext ''gin'' ''bind_parameter''
               [PStr ''select_random_chunk.feature_key'', PStr ''targets''] []) (\<lambda>_.
        bnd (ext ''gin'' ''bind_parameter''
               [PStr ''select_random_chunk.max_length'', max_input_length] []) (\<lambda>_.
        bnd (ext ''gin'' ''bind_parameter''
               [PStr ''random_spans_helper.extra_tokens_per_span_inputs'', PInt 1] []) (\<lambda>_.
        bnd (ext ''gin'' ''bind_parameter''
               [PStr ''random_spans_helper.extra_tokens_per_span_targets'', PInt 1] []) (\<lambda>_.
        bnd (ext ''gin'' ''bind_parameter''
               [PStr ''random_spans_helper.inputs_length'', max_input_length] []) (\<lambda>_.
        bnd (ext ''gin'' ''bind_parameter''
               [PStr ''random_spans_helper.mean_noise_span_length'', PFloat 3] []) (\<lambda>_.
        bnd (ext ''gin'' ''bind_parameter''
               [PStr ''random_spans_helper.noise_density'', noise_density] []) (\<lambda>_.
        bnd (ext ''t5_processors'' ''random_spans_tokens_length'' [] []) (\<lambda>len.
        bnd (ext ''gin'' ''bind_parameter''
               [PStr ''split_tokens.max_tokens_per_segment'', len] []) (\<lambda>_.
        bnd (ext ''gin'' ''bind_parameter''
               [PStr ''denoise.inputs_fn'',
                Attr ''t5_processors'' ''noise_span_to_unique_sentinel''] []) (\<lambda>_.
        bnd (ext ''gin'' ''bind_parameter''
               [PStr ''denoise.noise_density'', noise_density] []) (\<lambda>_.
        bnd (ext ''gin'' ''bind_parameter''
               [PStr ''denoise.noise_mask_fn'',
                Attr ''t5_processors'' ''random_spans_noise_mask''] []) (\<lambda>_.
        bnd (ext ''gin'' ''bind_parameter''
               [PStr ''denoise.targets_fn'',
                Attr ''t5_processors'' ''nonnoise_span_to_unique_sentinel''] []) (\<lambda>_.
        ret PNone)))))))))))))))"

section \<open>The test methods of inputs_test.py\<close>

text \<open>
  The test methods work on values that come out of the libraries. What Python does with
  such a value is a call into the value's own code, and so a call of the library as well:
  \<^item> \<open>x[k]\<close> is \<open>ext ''operator'' ''getitem'' [x, k]\<close>, \<open>x.name\<close> is
    \<open>ext ''builtins'' ''getattr'' [x, PStr name]\<close>, \<open>len(x)\<close>, \<open>next(x)\<close>, \<open>list(x)\<close>
    and \<open>iter(x)\<close> are calls of \<open>builtins\<close>;
  \<^item> a method call \<open>x.f(a)\<close> is \<open>ext ''method'' f [x, a]\<close>, and \<open>self.f(a)\<close>, an
    assertion of the test case, is \<open>ext ''self'' f [a]\<close>;
  \<^item> \<open>a, b = x\<close> is \<open>ext ''python'' ''unpack'' [x, PInt 2]\<close>, whose result is read with
    \<open>item 0\<close> and \<open>item 1\<close>.
  Literals, the counters and the lists that a method builds itself are computed here.
  The generator expression of \<open>test_batch_data\<close> is given by the list of the items it
  yields, and the \<open>lambda\<close> that \<open>load_c4_dataset\<close> hands to \<open>dataset.map\<close> by a reference
  to it: the library runs both, not the test.
\<close>

fun item :: "nat \<Rightarrow> pyval \<Rightarrow> pyval" where
  "item i (PTuple xs) = (if i < length xs then xs ! i else PNone)"
| "item i (PList xs) = (if i < length xs then xs ! i else PNone)"
| "item i _ = PNone"

text \<open>
  A \<open>for\<close> statement over a list that the method holds runs its body once for each item.
\<close>

fun for_each :: "'a list \<Rightarrow> ('a \<Rightarrow> ('w, pyval) eff) \<Rightarrow> ('w, pyval) eff" where
  "for_each [] body = ret PNone"
| "for_each (x # xs) body = bnd (body x) (\<lambda>_. for_each xs body)"

text \<open>
  A \<open>for\<close> statement over an iterator of a library asks the iterator for its next item
  until there is none. A step of the iterator is a parameter as the library is:
  \<open>nxt it\<close> raises an error, or returns \<open>Some x\<close>, the next item, or \<open>None\<close> when the
  iterator is exhausted. (Python signals exhaustion by \<open>StopIteration\<close>; that is the
  protocol between the iterator and the \<open>for\<close> statement and appears here as the outcome
  \<open>None\<close>, not as an error.) A data set need not end, so the loop has fuel: it returns
  \<open>None\<close> where the fuel runs out before the iterator does, and \<open>Some s\<close> with the
  variables \<open>s\<close> of the loop where the iterator is exhausted.
\<close>

type_synonym 'w stepper = "pyval \<Rightarrow> ('w, pyval option) eff"

fun for_in ::
  "nat \<Rightarrow> 'w stepper \<Rightarrow> pyval \<Rightarrow> ('s \<Rightarrow> pyval \<Rightarrow> ('w, 's) eff) \<Rightarrow> 's \<Rightarrow> ('w, 's option) eff" where
  "for_in 0 nxt it body s = ret None"
| "for_in (Suc fuel) nxt it body s =
     bnd (nxt it) (\<lambda>step.
       case step of
         None \<Rightarrow> ret (Some s)
       | Some x \<Rightarrow> bnd (body s x) (\<lambda>s'. for_in fuel nxt it body s'))"

text \<open>What follows a loop runs only where the loop has ended.\<close>

definition bnd_opt :: "('w, 'a option) eff \<Rightarrow> ('a \<Rightarrow> ('w, 'b option) eff) \<Rightarrow> ('w, 'b option) eff" where
  "bnd_opt c g = bnd c (\<lambda>r. case r of None \<Rightarrow> ret None | Some x \<Rightarrow> g x)"

text \<open>
  The module's globals and helpers. \<open>_TESTDATA\<close> is computed when the module is loaded,
  from the path of the file; here it is a reference to that attribute of the module.
\<close>

definition TESTDATA :: pyval where
  "TESTDATA = Attr ''inputs_test'' ''_TESTDATA''"

definition c4_dataset :: "'w extern \<Rightarrow> pyval \<Rightarrow> ('w, pyval) eff" where
  "c4_dataset ext split =
    ext ''tfds'' ''load'' []
      [(''name'', PStr ''c4''), (''split'', split), (''data_dir'', TESTDATA),
       (''shuffle_files'', PBool False)]"

definition spm_path :: "'w extern \<Rightarrow> ('w, pyval) eff" where
  "spm_path ext = ext ''os.path'' ''join'' [TESTDATA, PStr ''sentencepiece.model''] []"

definition setUp :: "'w extern \<Rightarrow> ('w, pyval) eff" where
  "setUp ext =
    bnd (ext ''super'' ''setUp'' [] []) (\<lambda>_.
    bnd (ext ''gin'' ''clear_config'' [] []) (\<lambda>_.
    ret PNone))"

definition test_batch_data :: "'w extern \<Rightarrow> ('w, pyval) eff" where
  "test_batch_data ext =
    (let dataset = PList (map (\<lambda>i. PTuple [PInt i, PInt (i + 1)]) [0..9])
     in bnd (ext ''inputs'' ''batch_data'' [dataset, PInt 10] []) (\<lambda>batches.
        bnd (ext ''builtins'' ''next'' [batches] []) (\<lambda>batch.
        bnd (ext ''builtins'' ''len'' [batch] []) (\<lambda>n.
        bnd (ext ''self'' ''assertEqual'' [n, PInt 2] []) (\<lambda>_.
        bnd (ext ''operator'' ''getitem'' [batch, PInt 0] []) (\<lambda>b0.
        bnd (ext ''builtins'' ''getattr'' [b0, PStr ''shape''] []) (\<lambda>shape.
        bnd (ext ''self'' ''assertEqual'' [shape, PTuple [PInt 10]] []) (\<lambda>_.
        ret PNone))))))))"

definition test_pad_to_max_dims :: "'w extern \<Rightarrow> ('w, pyval) eff" where
  "test_pad_to_max_dims ext =
    bnd (ext ''np'' ''zeros'' [PTuple [PInt 3, PInt 10]] []) (\<lambda>z1.
    bnd (ext ''np'' ''ones'' [PTuple [PInt 3, PInt 10]] []) (\<lambda>o1.
    bnd (ext ''inputs'' ''pad_to_max_dims'' [PList [z1, o1]] []) (\<lambda>padded1.
    bnd (ext ''builtins'' ''getattr'' [padded1, PStr ''shape''] []) (\<lambda>shape1.
    bnd (ext ''self'' ''assertEqual'' [shape1, PTuple [PInt 2, PInt 3, PInt 10]] []) (\<lambda>_.
    bnd (ext ''np'' ''zeros'' [PTuple [PInt 2, PInt 10]] []) (\<lambda>z2.
    bnd (ext ''np'' ''ones'' [PTuple [PInt 3, PInt 9]] []) (\<lambda>o2.
    bnd (ext ''inputs'' ''pad_to_max_dims'' [PList [z2, o2]] []) (\<lambda>padded2.
    bnd (ext ''builtins'' ''getattr'' [padded2, PStr ''shape''] []) (\<lambda>shape2.
    bnd (ext ''self'' ''assertEqual'' [shape2, PTuple [PInt 2, PInt 3, PInt 10]] []) (\<lambda>_.
    bnd (ext ''np'' ''zeros'' [PTuple [PInt 8, PInt 10]] []) (\<lambda>z3.
    bnd (ext ''np'' ''ones'' [PTuple [PInt 8, PInt 9]] []) (\<lambda>o3.
    bnd (ext ''inputs'' ''pad_to_max_dims'' [PList [z3, o3], PInt 12] []) (\<lambda>padded3.
    bnd (ext ''builtins'' ''getattr'' [padded3, PStr ''shape''] []) (\<lambda>shape3.
    bnd (ext ''self'' ''assertEqual'' [shape3, PTuple [PInt 2, PInt 8, PInt 12]] []) (\<lambda>_.
    bnd (ext ''np'' ''zeros'' [PTuple [PInt 2, PInt 10]] []) (\<lambda>z4.
    bnd (ext ''np'' ''ones'' [PTuple [PInt 3, PInt 9]] []) (\<lambda>o4.
    bnd (ext ''inputs'' ''pad_to_max_dims'' [PList [z4, o4], PInt 12] []) (\<lambda>padded4.
    bnd (ext ''builtins'' ''getattr'' [padded4, PStr ''shape''] []) (\<lambda>shape4.
    bnd (ext ''self'' ''assertEqual'' [shape4, PTuple [PInt 2, PInt 4, PInt 12]] []) (\<lambda>_.
    ret PNone))))))))))))))))))))"

text \<open>\<open>list(tfds.as_numpy(dataset.take(1)))[0]\<close>, which three of the tests use.\<close>

definition first_example :: "'w extern \<Rightarrow> pyval \<Rightarrow> ('w, pyval) eff" where
  "first_example ext dataset =
    bnd (ext ''method'' ''take'' [dataset, PInt 1] []) (\<lambda>taken.
    bnd (ext ''tfds'' ''as_numpy'' [taken] []) (\<lambda>arrays.
    bnd (ext ''builtins'' ''list'' [arrays] []) (\<lambda>examples.
    ext ''operator'' ''getitem'' [examples, PInt 0] [])))"

definition test_c4_bare_preprocess_fun :: "'w extern \<Rightarrow> ('w, pyval) eff" where
  "test_c4_bare_preprocess_fun ext =
    bnd (c4_dataset ext (PStr ''train'')) (\<lambda>dataset.
    bnd (first_example ext dataset) (\<lambda>example.
    bnd (ext ''self'' ''assertNotIn'' [PStr ''targets'', example] []) (\<lambda>_.
    bnd (ext ''self'' ''assertIn'' [PStr ''text'', example] []) (\<lambda>_.
    bnd (ext ''operator'' ''getitem'' [example, PStr ''text''] []) (\<lambda>text.
    bnd (ext ''os.path'' ''join'' [TESTDATA, PStr ''sentencepiece.model''] []) (\<lambda>path.
    bnd (ext ''inputs'' ''c4_bare_preprocess_fun'' [dataset] [(''spm_path'', path)]) (\<lambda>dataset.
    bnd (first_example ext dataset) (\<lambda>example.
    bnd (ext ''self'' ''assertIn'' [PStr ''targets_plaintext'', example] []) (\<lambda>_.
    bnd (ext ''operator'' ''getitem'' [example, PStr ''targets_plaintext''] []) (\<lambda>plain.
    bnd (ext ''self'' ''assertEqual'' [plain, text] []) (\<lambda>_.
    bnd (ext ''self'' ''assertIn'' [PStr ''targets'', example] []) (\<lambda>_.
    bnd (ext ''operator'' ''getitem'' [example, PStr ''targets''] []) (\<lambda>t1.
    bnd (ext ''self'' ''assertIsInstance'' [t1, Attr ''np'' ''ndarray''] []) (\<lambda>_.
    bnd (ext ''operator'' ''getitem'' [example, PStr ''targets''] []) (\<lambda>t2.
    bnd (ext ''builtins'' ''getattr'' [t2, PStr ''dtype''] []) (\<lambda>dtype.
    bnd (ext ''self'' ''assertEqual'' [dtype, Attr ''np'' ''int64''] []) (\<lambda>_.
    bnd (ext ''operator'' ''getitem'' [example, PStr ''targets''] []) (\<lambda>t3.
    bnd (ext ''builtins'' ''len'' [t3] []) (\<lambda>n.
    bnd (ext ''self'' ''assertGreater'' [n, PInt 0] []) (\<lambda>_.
    bnd (ext ''self'' ''assertIn'' [PStr ''inputs'', example] []) (\<lambda>_.
    bnd (ext ''operator'' ''getitem'' [example, PStr ''inputs''] []) (\<lambda>i1.
    bnd (ext ''builtins'' ''len'' [i1] []) (\<lambda>m.
    bnd (ext ''self'' ''assertEqual'' [m, PInt 0] []) (\<lambda>_.
    ret PNone))))))))))))))))))))))))"

text \<open>The two local functions of \<open>test_c4_preprocess\<close>.\<close>

definition load_c4_dataset :: "'w extern \<Rightarrow> pyval \<Rightarrow> ('w, pyval) eff" where
  "load_c4_dataset ext split =
    bnd (c4_dataset ext split) (\<lambda>dataset.
    ext ''method'' ''map'' [dataset, Attr ''inputs_test'' ''load_c4_dataset.lambda''] [])"

definition examine_processed_dataset ::
  "nat \<Rightarrow> 'w extern \<Rightarrow> 'w stepper \<Rightarrow> pyval \<Rightarrow> ('w, (int \<times> pyval list) option) eff" where
  "examine_processed_dataset fuel ext nxt proc_dataset =
    (let count = 0;
         lengths = []
     in bnd (ext ''tfds'' ''as_numpy'' [proc_dataset] []) (\<lambda>arrays.
        bnd (ext ''builtins'' ''iter'' [arrays] []) (\<lambda>it.
        for_in fuel nxt it
          (\<lambda>(count, lengths) example.
             bnd (ext ''operator'' ''getitem'' [example, PInt 0] []) (\<lambda>ex.
             bnd (ext ''self'' ''assertIn'' [PStr ''targets'', ex] []) (\<lambda>_.
             bnd (ext ''operator'' ''getitem'' [ex, PStr ''targets''] []) (\<lambda>t1.
             bnd (ext ''builtins'' ''getattr'' [t1, PStr ''dtype''] []) (\<lambda>dtype.
             bnd (ext ''self'' ''assertEqual'' [dtype, Attr ''np'' ''int64''] []) (\<lambda>_.
             bnd (ext ''operator'' ''getitem'' [ex, PStr ''targets''] []) (\<lambda>t2.
             bnd (ext ''builtins'' ''len'' [t2] []) (\<lambda>n.
             ret (count + 1, lengths @ [n])))))))))
          (count, lengths))))"

definition test_c4_preprocess :: "nat \<Rightarrow> 'w extern \<Rightarrow> 'w stepper \<Rightarrow> ('w, pyval option) eff" where
  "test_c4_preprocess fuel ext nxt =
    (let unfiltered_count = (0 :: int)
     in bnd (load_c4_dataset ext (PStr ''train'')) (\<lambda>loaded.
        bnd (ext ''tfds'' ''as_numpy'' [loaded] []) (\<lambda>arrays.
        bnd (ext ''builtins'' ''iter'' [arrays] []) (\<lambda>it.
        bnd_opt
          (for_in fuel nxt it
             (\<lambda>unfiltered_count example.
                bnd (ext ''operator'' ''getitem'' [example, PInt 0] []) (\<lambda>ex.
                bnd (ext ''self'' ''assertNotIn'' [PStr ''targets'', ex] []) (\<lambda>_.
                ret (unfiltered_count + 1))))
             unfiltered_count) (\<lambda>unfiltered_count.
        bnd (load_c4_dataset ext (PStr ''train'')) (\<lambda>loaded.
        bnd (ext ''inputs'' ''c4_preprocess''
               [loaded, PBool False, PTuple [PDict [], PTuple []], PInt 2048] []) (\<lambda>result.
        bnd (ext ''python'' ''unpack'' [result, PInt 2] []) (\<lambda>pair.
        (let proc_dataset = item 0 pair;
             proc_shapes = item 1 pair
         in bnd (ext ''operator'' ''getitem'' [proc_shapes, PInt 1] []) (\<lambda>shape.
            bnd (ext ''self'' ''assertEqual'' [shape, PTuple [PNone]] []) (\<lambda>_.
            bnd_opt (examine_processed_dataset fuel ext nxt proc_dataset)
              (\<lambda>(proc_count, char_lengths).
            bnd (ext ''self'' ''assertGreater'' [PInt unfiltered_count, PInt 0] []) (\<lambda>_.
            bnd (ext ''self'' ''assertGreater'' [PInt proc_count, PInt 0] []) (\<lambda>_.
            bnd (ext ''self'' ''assertLess'' [PInt proc_count, PInt unfiltered_count] []) (\<lambda>_.
            bnd (load_c4_dataset ext (PStr ''train'')) (\<lambda>loaded.
            bnd (ext ''os.path'' ''join'' [TESTDATA, PStr ''sentencepiece.model''] []) (\<lambda>path.
            bnd (ext ''inputs'' ''c4_preprocess''
                   [loaded, PBool False, PTuple [PDict [], PTuple []], PInt 2048]
                   [(''tokenization'', PStr ''spc''), (''spm_path'', path)]) (\<lambda>result.
            bnd (ext ''python'' ''unpack'' [result, PInt 2] []) (\<lambda>pair.
            (let spc_proc_dataset = item 0 pair
             in bnd_opt (examine_processed_dataset fuel ext nxt spc_proc_dataset)
                  (\<lambda>(spc_proc_count, spc_lengths).
                bnd (ext ''self'' ''assertLessEqual'' [PInt proc_count, PInt spc_proc_count] [])
                  (\<lambda>_.
                bnd (ext ''self'' ''assertEqual'' [PInt unfiltered_count, PInt spc_proc_count] [])
                  (\<lambda>_.
                bnd (for_each (zip spc_lengths char_lengths)
                       (\<lambda>(spc_len, char_len).
                          ext ''self'' ''assertLessEqual'' [spc_len, char_len] [])) (\<lambda>_.
                ret (Some PNone)))))))))))))))))))))))))"

definition test_c4 :: "'w extern \<Rightarrow> ('w, pyval) eff" where
  "test_c4 ext =
    bnd (ext ''gin'' ''bind_parameter''
           [PStr ''shuffle_and_batch_data.preprocess_fun'', Attr ''inputs'' ''c4_preprocess''] [])
      (\<lambda>_.
    bnd (ext ''gin'' ''bind_parameter'' [PStr ''c4_preprocess.max_target_length'', PInt 2048] [])
      (\<lambda>_.
    bnd (ext ''gin'' ''bind_parameter'' [PStr ''c4_preprocess.tokenization'', PStr ''spc''] [])
      (\<lambda>_.
    bnd (ext ''os.path'' ''join'' [TESTDATA, PStr ''sentencepiece.model''] []) (\<lambda>path.
    bnd (ext ''gin'' ''bind_parameter'' [PStr ''c4_preprocess.spm_path'', path] []) (\<lambda>_.
    bnd (ext ''gin'' ''bind_parameter'' [PStr ''batch_fn.batch_size_per_device'', PInt 8] [])
      (\<lambda>_.
    bnd (ext ''gin'' ''bind_parameter'' [PStr ''batch_fn.eval_batch_size'', PInt 8] []) (\<lambda>_.
    bnd (ext ''gin'' ''bind_parameter'' [PStr ''batch_fn.max_eval_length'', PInt 2048] []) (\<lambda>_.
    bnd (ext ''gin'' ''bind_parameter''
           [PStr ''batch_fn.buckets'',
            PTuple [PList [PInt 2049], PList [PInt 8, PInt 1]]] []) (\<lambda>_.
    bnd (ext ''inputs'' ''inputs'' [PStr ''c4'']
           [(''data_dir'', TESTDATA), (''input_name'', PStr ''targets''),
            (''target_name'', PStr ''text'')]) (\<lambda>_.
    ret PNone))))))))))"

definition test_c4_bare_preprocess_fun_denoising_objective ::
  "'w extern \<Rightarrow> ('w, pyval) eff" where
  "test_c4_bare_preprocess_fun_denoising_objective ext =
    bnd (t5_gin_config ext) (\<lambda>_.
    bnd (c4_dataset ext (PStr ''train'')) (\<lambda>dataset.
    bnd (spm_path ext) (\<lambda>path.
    bnd (ext ''inputs'' ''c4_bare_preprocess_fun'' [dataset] [(''spm_path'', path)]) (\<lambda>result.
    bnd (ext ''python'' ''unpack'' [result, PInt 2] []) (\<lambda>pair.
    (let dataset = item 0 pair
     in bnd (first_example ext dataset) (\<lambda>example.
        bnd (ext ''self'' ''assertIn'' [PStr ''targets'', example] []) (\<lambda>_.
        bnd (ext ''operator'' ''getitem'' [example, PStr ''targets''] []) (\<lambda>targets.
        bnd (ext ''self'' ''assertIsInstance'' [targets, Attr ''np'' ''ndarray''] []) (\<lambda>_.
        bnd (ext ''builtins'' ''getattr'' [targets, PStr ''dtype''] []) (\<lambda>tdtype.
        bnd (ext ''self'' ''assertEqual'' [tdtype, Attr ''np'' ''int64''] []) (\<lambda>_.
        bnd (ext ''builtins'' ''len'' [targets] []) (\<lambda>tlen.
        bnd (ext ''self'' ''assertGreater'' [tlen, PInt 0] []) (\<lambda>_.
        bnd (ext ''self'' ''assertIn'' [PStr ''inputs'', example] []) (\<lambda>_.
        bnd (ext ''operator'' ''getitem'' [example, PStr ''inputs''] []) (\<lambda>inputs.
        bnd (ext ''self'' ''assertIsInstance'' [inputs, Attr ''np'' ''ndarray''] []) (\<lambda>_.
        bnd (ext ''builtins'' ''getattr'' [inputs, PStr ''dtype''] []) (\<lambda>idtype.
        bnd (ext ''self'' ''assertEqual'' [idtype, Attr ''np'' ''int64''] []) (\<lambda>_.
        bnd (ext ''builtins'' ''len'' [inputs] []) (\<lambda>ilen.
        bnd (ext ''self'' ''assertGreater'' [ilen, PInt 0] []) (\<lambda>_.
        bnd (ext ''builtins'' ''len'' [inputs] []) (\<lambda>ilen2.
        bnd (ext ''builtins'' ''len'' [targets] []) (\<lambda>tlen2.
        bnd (ext ''self'' ''assertGreater'' [ilen2, tlen2] []) (\<lambda>_.
        bnd (ext ''method'' ''tolist'' [inputs] []) (\<lambda>ilist.
        bnd (ext ''collections'' ''Counter'' [ilist] []) (\<lambda>inputs_counter.
        bnd (ext ''method'' ''tolist'' [targets] []) (\<lambda>tlist.
        bnd (ext ''collections'' ''Counter'' [tlist] []) (\<lambda>targets_counter.
        bnd (ext ''operator'' ''getitem'' [inputs_counter, PInt 31999] []) (\<lambda>c1.
        bnd (ext ''self'' ''assertEqual'' [PInt 1, c1] []) (\<lambda>_.
        bnd (ext ''operator'' ''getitem'' [inputs_counter, PInt 31998] []) (\<lambda>c2.
        bnd (ext ''self'' ''assertEqual'' [PInt 1, c2] []) (\<lambda>_.
        bnd (ext ''operator'' ''getitem'' [targets_counter, PInt 31999] []) (\<lambda>c3.
        bnd (ext ''self'' ''assertEqual'' [PInt 1, c3] []) (\<lambda>_.
        bnd (ext ''operator'' ''getitem'' [targets_counter, PInt 31998] []) (\<lambda>c4.
        bnd (ext ''self'' ''assertEqual'' [PInt 1, c4] []) (\<lambda>_.
        ret PNone))))))))))))))))))))))))))))))))))))"

definition test_c4_pretrain :: "'w extern \<Rightarrow> ('w, pyval) eff" where
  "test_c4_pretrain ext =
    bnd (t5_gin_config ext) (\<lambda>_.
    bnd (ext ''gin'' ''bind_parameter''
           [PStr ''shuffle_and_batch_data.bare_preprocess_fun'',
            Attr ''inputs'' ''c4_bare_preprocess_fun''] []) (\<lambda>_.
    bnd (ext ''os.path'' ''join'' [TESTDATA, PStr ''sentencepiece.model''] []) (\<lambda>path.
    bnd (ext ''gin'' ''bind_parameter'' [PStr ''c4_bare_preprocess_fun.spm_path'', path] [])
      (\<lambda>_.
    bnd (ext ''gin'' ''bind_parameter'' [PStr ''batch_fn.batch_size_per_device'', PInt 8] [])
      (\<lambda>_.
    bnd (ext ''gin'' ''bind_parameter'' [PStr ''batch_fn.eval_batch_size'', PInt 8] []) (\<lambda>_.
    bnd (ext ''gin'' ''bind_parameter'' [PStr ''batch_fn.max_eval_length'', PInt 50] []) (\<lambda>_.
    bnd (ext ''gin'' ''bind_parameter''
           [PStr ''batch_fn.buckets'',
            PTuple [PList [PInt 51], PList [PInt 8, PInt 1]]] []) (\<lambda>_.
    bnd (ext ''inputs'' ''inputs'' [PStr ''c4'']
           [(''data_dir'', TESTDATA), (''input_name'', PStr ''inputs''),
            (''target_name'', PStr ''targets'')]) (\<lambda>_.
    ret PNone)))))))))"

section \<open>Libraries\<close>

text \<open>
  Modelled from the spec: the layer-combinator library (\<open>Serial\<close>, \<open>Parallel\<close>,
  \<open>Branch\<close>, \<open>Add\<close>, \<open>Dense\<close>, \<open>RandomUniformInitializer\<close>) and \<open>models.PureMLP\<close> are
  not among the sources. The symbolic library returns, for every call, the term that
  records the call; it never raises and leaves the world alone.
\<close>

definition symbolic :: "'w extern" where
  "symbolic m f args kw = ret (Call m f args kw)"

text \<open>
  Modelled from the spec: gin (a dependency-injection configuration library, not among
  the sources) keeps a store of bindings; \<open>gin.bind_parameter(key, value)\<close> binds \<open>key\<close>
  to \<open>value\<close> and \<open>gin.clear_config()\<close> empties the store. Here the world is that store,
  and every other call is symbolic.
\<close>

type_synonym gin_store = "(string \<times> pyval) list"

definition gin_library :: "gin_store extern" where
  "gin_library m f args kw =
    (if m = ''gin'' \<and> f = ''bind_parameter''
     then (case args of
             [PStr key, v] \<Rightarrow> (\<lambda>store. (Inr PNone, AList.update key v store))
           | _ \<Rightarrow> (\<lambda>store. (Inl (Call ''builtins'' ''TypeError'' [] []), store)))
     else if m = ''gin'' \<and> f = ''clear_config''
     then (\<lambda>store. (Inr PNone, []))
     else ret (Call m f args kw))"

section \<open>Reading a returned network\<close>

text \<open>The callable that a \<open>body\<close> or \<open>normalizer\<close> argument stands for.\<close>

definition or_empty :: "'w layer_fn option \<Rightarrow> 'w layer_fn" where
  "or_empty f = (case f of None \<Rightarrow> (\<lambda>mode. ret (PList [])) | Some g \<Rightarrow> g)"

text \<open>A callable without effects: it returns \<open>f mode\<close> and does nothing else.\<close>

definition pure_fn :: "('a \<Rightarrow> pyval) \<Rightarrow> 'a \<Rightarrow> ('w, pyval) eff" where
  "pure_fn f = (\<lambda>x. ret (f x))"

text \<open>The same for an optional pure callable, \<open>None\<close> standing for the empty layer list.\<close>

definition pure_or_empty :: "(pyval \<Rightarrow> pyval) option \<Rightarrow> pyval \<Rightarrow> pyval" where
  "pure_or_empty f = (case f of None \<Rightarrow> (\<lambda>mode. PList []) | Some g \<Rightarrow> g)"

text \<open>Positional and keyword arguments of a symbolic call.\<close>

fun call_args :: "pyval \<Rightarrow> pyval list" where
  "call_args (Call m f args kw) = args"
| "call_args _ = []"

fun call_kwargs :: "pyval \<Rightarrow> kwargs" where
  "call_kwargs (Call m f args kw) = kw"
| "call_kwargs _ = []"

fun callee :: "pyval \<Rightarrow> string \<times> string" where
  "callee (Call m f args kw) = (m, f)"
| "callee _ = ([], [])"

text \<open>The value a run returns, \<open>PNone\<close> standing in where it raises.\<close>

definition returned :: "(exn + pyval) \<times> 'w \<Rightarrow> pyval" where
  "returned r = (case fst r of Inl e \<Rightarrow> PNone | Inr v \<Rightarrow> v)"

section \<open>Observing a run\<close>

text \<open>
  To see which library calls a piece of code makes, the world is paired with a log: the
  logged library does what the library does and appends the callee and the outcome of the
  call. A callable passed as an argument is logged under the module name \<open>argument\<close>, so
  that its own doings are told apart from the calls the code makes itself.
\<close>

type_synonym call_log = "(string \<times> string \<times> (exn + pyval)) list"

definition logged :: "'w extern \<Rightarrow> ('w \<times> call_log) extern" where
  "logged ext m f args kw =
    (\<lambda>(w, lg). case ext m f args kw w of (r, w') \<Rightarrow> (r, (w', lg @ [(m, f, r)])))"

definition logged_fn :: "string \<Rightarrow> ('a \<Rightarrow> ('w, pyval) eff) \<Rightarrow> 'a \<Rightarrow> ('w \<times> call_log, pyval) eff" where
  "logged_fn name g x =
    (\<lambda>(w, lg). case g x w of (r, w') \<Rightarrow> (r, (w', lg @ [(''argument'', name, r)])))"

text \<open>The names of the layer library that a log holds.\<close>

definition tl_names :: "call_log \<Rightarrow> string set" where
  "tl_names lg = set (map (\<lambda>(m, f, r). f) (filter (\<lambda>(m, f, r). m = ''tl'') lg))"

text \<open>The surface of the layer library that the spec lists.\<close>

definition tl_surface :: "string set" where
  "tl_surface =
    {''Serial'', ''Parallel'', ''Branch'', ''Add'', ''Dense'', ''RandomUniformInitializer''}"

text \<open>A run that adds no name outside \<open>S\<close> to the log.\<close>

definition keeps :: "string set \<Rightarrow> ('w \<times> call_log, 'a) eff \<Rightarrow> bool" where
  "keeps S c = (\<forall>w lg. tl_names lg \<subseteq> S \<longrightarrow> tl_names (snd (snd (c (w, lg)))) \<subseteq> S)"


text \<open>
  A step of an iterator is logged as a call of \<open>next\<close>; the end of the iteration is
  logged as the value \<open>None\<close> that the step returns.
\<close>

definition logged_step :: "'w stepper \<Rightarrow> ('w \<times> call_log) stepper" where
  "logged_step nxt it =
    (\<lambda>(w, lg). case nxt it w of
       (r, w') \<Rightarrow>
         (r, (w', lg @ [(''builtins'', ''next'',
                         map_sum id (\<lambda>step. case step of None \<Rightarrow> PNone | Some x \<Rightarrow> x) r)])))"

text \<open>The exceptions that the calls of a log raised, in the order of the calls.\<close>

definition raised :: "call_log \<Rightarrow> exn list" where
  "raised lg = concat (map (\<lambda>(m, f, r). case r of Inl e \<Rightarrow> [e] | Inr v \<Rightarrow> []) lg)"

text \<open>
  A finished run, its outcome and its log, has let the exceptions through when every
  exception \<open>e\<close> that a call of the log raised is the outcome of the run, is the only
  exception raised, and was raised by the last call the run made: nothing caught it,
  nothing changed it, and nothing ran after it.
\<close>

definition propagated :: "(exn + 'a) \<times> ('w \<times> call_log) \<Rightarrow> bool" where
  "propagated run =
    (\<forall>e \<in> set (raised (snd (snd run))).
       fst run = Inl e \<and> raised (snd (snd run)) = [e] \<and> snd (snd (last (snd (snd run)))) = Inl e)"

text \<open>A piece of code lets exceptions through when each of its runs does.\<close>

definition propagates :: "('w \<times> call_log, 'a) eff \<Rightarrow> bool" where
  "propagates c = (\<forall>w lg. raised lg = [] \<longrightarrow> propagated (c (w, lg)))"

text \<open>
  A library in which the function named \<open>f0\<close> raises, whatever its module, and every
  other call is symbolic.
\<close>

definition failing :: "string \<Rightarrow> 'w extern" where
  "failing f0 m f args kw =
    (if f = f0
     then (\<lambda>w. (Inl (Call ''builtins'' ''RuntimeError'' [PStr f0] []), w))
     else ret (Call m f args kw))"





section \<open>Laws of sequencing\<close>

lemma bnd_ret [simp]: "bnd (ret x) f = f x"
  by (simp add: bnd_def ret_def)

lemma bnd_ret_right [simp]: "bnd m ret = m"
  by (auto simp: bnd_def ret_def fun_eq_iff split: prod.splits sum.splits)

lemma bnd_assoc: "bnd (bnd m f) g = bnd m (\<lambda>x. bnd (f x) g)"
  by (auto simp: bnd_def fun_eq_iff split: prod.splits sum.splits)

lemma bnd_if: "bnd (if c then m else m') f = (if c then bnd m f else bnd m' f)"
  by simp

lemma ret_apply: "ret x w = (Inr x, w)"
  by (simp add: ret_def)

lemma or_empty_pure:
  "or_empty (map_option pure_fn f) mode = ret (pure_or_empty f mode)"
  by (cases f) (simp_all add: or_empty_def pure_or_empty_def pure_fn_def)

section \<open>The factories under the symbolic library\<close>

lemma Policy_symbolic:
  "Policy symbolic pd body normalizer head_init_range mode =
     bnd (or_empty normalizer mode) (\<lambda>n.
     bnd (or_empty body mode) (\<lambda>b.
     ret (Call ''tl'' ''Serial''
            [n, b,
             Call ''tl'' ''Dense'' [PInt (n_inputs pd)]
               (if head_init_range = PNone then []
                else [(''kernel_initializer'',
                       Call ''tl'' ''RandomUniformInitializer'' []
                         [(''lim'', head_init_range)])])] [])))"
  by (simp add: Policy_def Let_def symbolic_def or_empty_def bnd_assoc split: option.split)

lemma ActionInjector_symbolic:
  "ActionInjector symbolic inject_actions n_layers idim mode =
     ret (if inject_actions
          then Call ''tl'' ''Serial''
                 [Call ''tl'' ''Parallel''
                    [Call ''tl'' ''Dense'' [PInt idim] [], Call ''tl'' ''Dense'' [PInt idim] []] [],
                  Call ''tl'' ''Add'' [] [],
                  Call ''models'' ''PureMLP'' []
                    [(''layer_widths'', PTuple (replicate (nat n_layers) (PInt idim))),
                     (''out_activation'', PBool True),
                     (''flatten'', PBool False),
                     (''mode'', mode)]] []
          else PList [])"
  by (simp add: ActionInjector_def symbolic_def)

lemma Value_symbolic:
  "Value symbolic body normalizer inject_actions n_layers idim mode =
     bnd (or_empty normalizer mode) (\<lambda>n.
     bnd (or_empty body mode) (\<lambda>b.
     ret (Call ''tl'' ''Serial''
            [n, b,
             (if inject_actions
              then Call ''tl'' ''Serial''
                     [Call ''tl'' ''Parallel''
                        [Call ''tl'' ''Dense'' [PInt idim] [],
                         Call ''tl'' ''Dense'' [PInt idim] []] [],
                      Call ''tl'' ''Add'' [] [],
                      Call ''models'' ''PureMLP'' []
                        [(''layer_widths'', PTuple (replicate (nat n_layers) (PInt idim))),
                         (''out_activation'', PBool True),
                         (''flatten'', PBool False),
                         (''mode'', mode)]] []
              else PList []),
             Call ''tl'' ''Dense'' [PInt 1] []] [])))"
  by (simp add: Value_def Let_def ActionInjector_symbolic or_empty_def
        split: option.split)
     (simp add: symbolic_def)

lemma PolicyAndValue_symbolic:
  "PolicyAndValue symbolic pd body policy_top value_top normalizer head_init_range mode =
     bnd (or_empty normalizer mode) (\<lambda>n.
     bnd (or_empty body mode) (\<lambda>b.
     bnd (policy_top pd mode) (\<lambda>p.
     bnd (value_top mode) (\<lambda>v.
     ret (Call ''tl'' ''Serial'' [n, b, Call ''tl'' ''Branch'' [p, v] []] [])))))"
  by (simp add: PolicyAndValue_def Let_def symbolic_def or_empty_def bnd_assoc
        split: option.split)

lemma gin_bind:
  "bnd (gin_library ''gin'' ''bind_parameter'' [PStr key, v] []) f store =
     f PNone (AList.update key v store)"
  by (simp add: gin_library_def bnd_def)

lemma gin_other:
  "gin_library ''t5_processors'' f args kw = ret (Call ''t5_processors'' f args kw)"
  by (simp add: gin_library_def)

section \<open>Structure of the returned networks\<close>

text \<open>
  C1. For every policy distribution, body, normalizer, policy top, value top and mode,
  \<open>PolicyAndValue\<close> returns \<open>tl.Serial(normalizer(mode), body(mode),
  tl.Branch(policy_top(policy_distribution, mode), value_top(mode)))\<close>: the normalizer
  layers first, then the shared body, then a branch whose first branch is the policy head
  and whose second branch is the value head. The first equation is for any callables
  (they run in this order, and the network is built from what they return); the second is
  the case of callables without effects, where the call returns just that network.
\<close>

theorem PolicyAndValue_structure:
  "PolicyAndValue symbolic pd body policy_top value_top normalizer head_init_range mode =
     bnd (or_empty normalizer mode) (\<lambda>n.
     bnd (or_empty body mode) (\<lambda>b.
     bnd (policy_top pd mode) (\<lambda>p.
     bnd (value_top mode) (\<lambda>v.
     ret (Call ''tl'' ''Serial'' [n, b, Call ''tl'' ''Branch'' [p, v] []] [])))))
   \<and>
   PolicyAndValue symbolic pd (map_option pure_fn pbody) (\<lambda>d. pure_fn (ptop d))
       (pure_fn vtop) (map_option pure_fn pnormalizer) head_init_range mode w =
     (Inr (Call ''tl'' ''Serial''
             [pure_or_empty pnormalizer mode,
              pure_or_empty pbody mode,
              Call ''tl'' ''Branch'' [ptop pd mode, vtop mode] []] []), w)"
  by (simp add: PolicyAndValue_symbolic or_empty_pure pure_fn_def ret_apply)

text \<open>
  C2. For every policy distribution, body, normalizer, head initialisation range and mode,
  \<open>Policy\<close> returns \<open>tl.Serial(normalizer(mode), body(mode),
  tl.Dense(policy_distribution.n_inputs, ...))\<close>: the fixed sequence normalizer, body,
  head, where the head is one \<open>Dense\<close> layer of output size \<open>n_inputs\<close> (its keyword
  arguments are the head's initialiser, when a range is given).
\<close>

theorem Policy_structure:
  "Policy symbolic pd body normalizer head_init_range mode =
     bnd (or_empty normalizer mode) (\<lambda>n.
     bnd (or_empty body mode) (\<lambda>b.
     ret (Call ''tl'' ''Serial''
            [n, b,
             Call ''tl'' ''Dense'' [PInt (n_inputs pd)]
               (if head_init_range = PNone then []
                else [(''kernel_initializer'',
                       Call ''tl'' ''RandomUniformInitializer'' []
                         [(''lim'', head_init_range)])])] [])))
   \<and>
   (\<exists>kw. Policy symbolic pd (map_option pure_fn pbody) (map_option pure_fn pnormalizer)
            head_init_range mode w =
      (Inr (Call ''tl'' ''Serial''
              [pure_or_empty pnormalizer mode,
               pure_or_empty pbody mode,
               Call ''tl'' ''Dense'' [PInt (n_inputs pd)] kw] []), w))"
  by (simp add: Policy_symbolic or_empty_pure ret_apply)

text \<open>
  C3. For every body, normalizer, injection setting and mode, \<open>Value\<close> returns
  \<open>tl.Serial(normalizer(mode), body(mode), A, tl.Dense(1))\<close>, where \<open>A\<close> is the empty
  layer list when \<open>inject_actions\<close> is false and
  \<open>tl.Serial(tl.Parallel(tl.Dense(dim), tl.Dense(dim)), tl.Add(),
  models.PureMLP(layer_widths=(dim,) * n_layers, out_activation=True, flatten=False,
  mode=mode))\<close> when it is true; the last layer is a \<open>Dense\<close> layer of output size 1 in
  both cases.
\<close>

theorem Value_structure:
  "Value symbolic (map_option pure_fn pbody) (map_option pure_fn pnormalizer)
       False n_layers idim mode w =
     (Inr (Call ''tl'' ''Serial''
             [pure_or_empty pnormalizer mode,
              pure_or_empty pbody mode,
              PList [],
              Call ''tl'' ''Dense'' [PInt 1] []] []), w)
   \<and>
   Value symbolic (map_option pure_fn pbody) (map_option pure_fn pnormalizer)
       True n_layers idim mode w =
     (Inr (Call ''tl'' ''Serial''
             [pure_or_empty pnormalizer mode,
              pure_or_empty pbody mode,
              Call ''tl'' ''Serial''
                [Call ''tl'' ''Parallel''
                   [Call ''tl'' ''Dense'' [PInt idim] [],
                    Call ''tl'' ''Dense'' [PInt idim] []] [],
                 Call ''tl'' ''Add'' [] [],
                 Call ''models'' ''PureMLP'' []
                   [(''layer_widths'', PTuple (replicate (nat n_layers) (PInt idim))),
                    (''out_activation'', PBool True),
                    (''flatten'', PBool False),
                    (''mode'', mode)]] [],
              Call ''tl'' ''Dense'' [PInt 1] []] []), w)
   \<and>
   Value symbolic body normalizer inject_actions n_layers idim mode =
     bnd (or_empty normalizer mode) (\<lambda>n.
     bnd (or_empty body mode) (\<lambda>b.
     bnd (ActionInjector symbolic inject_actions n_layers idim mode) (\<lambda>a.
     ret (Call ''tl'' ''Serial'' [n, b, a, Call ''tl'' ''Dense'' [PInt 1] []] []))))"
proof (intro conjI)
  show "Value symbolic (map_option pure_fn pbody) (map_option pure_fn pnormalizer)
       False n_layers idim mode w =
     (Inr (Call ''tl'' ''Serial''
             [pure_or_empty pnormalizer mode,
              pure_or_empty pbody mode,
              PList [],
              Call ''tl'' ''Dense'' [PInt 1] []] []), w)"
    by (simp add: Value_symbolic or_empty_pure ret_apply)
  show "Value symbolic (map_option pure_fn pbody) (map_option pure_fn pnormalizer)
       True n_layers idim mode w =
     (Inr (Call ''tl'' ''Serial''
             [pure_or_empty pnormalizer mode,
              pure_or_empty pbody mode,
              Call ''tl'' ''Serial''
                [Call ''tl'' ''Parallel''
                   [Call ''tl'' ''Dense'' [PInt idim] [],
                    Call ''tl'' ''Dense'' [PInt idim] []] [],
                 Call ''tl'' ''Add'' [] [],
                 Call ''models'' ''PureMLP'' []
                   [(''layer_widths'', PTuple (replicate (nat n_layers) (PInt idim))),
                    (''out_activation'', PBool True),
                    (''flatten'', PBool False),
                    (''mode'', mode)]] [],
              Call ''tl'' ''Dense'' [PInt 1] []] []), w)"
    by (simp add: Value_symbolic or_empty_pure ret_apply)
  show "Value symbolic body normalizer inject_actions n_layers idim mode =
     bnd (or_empty normalizer mode) (\<lambda>n.
     bnd (or_empty body mode) (\<lambda>b.
     bnd (ActionInjector symbolic inject_actions n_layers idim mode) (\<lambda>a.
     ret (Call ''tl'' ''Serial'' [n, b, a, Call ''tl'' ''Dense'' [PInt 1] []] []))))"
    by (simp add: Value_symbolic ActionInjector_symbolic)
qed

text \<open>
  C4. The network returned by \<open>PolicyAndValue\<close> does not depend on \<open>head_init_range\<close>:
  with all other arguments equal, any two values of it (\<open>None\<close> included) give the same
  result, since the keyword arguments built from it are passed to nothing.
\<close>

theorem PolicyAndValue_ignores_head_init_range:
  "PolicyAndValue symbolic pd body policy_top value_top normalizer r1 mode =
   PolicyAndValue symbolic pd body policy_top value_top normalizer r2 mode"
  by (simp add: PolicyAndValue_symbolic)

text \<open>
  C6. In \<open>Policy\<close>, the head \<open>Dense\<close> layer gets the keyword argument
  \<open>kernel_initializer = tl.RandomUniformInitializer(lim=head_init_range)\<close> if and only if
  \<open>head_init_range\<close> is not \<open>None\<close>; when it is \<open>None\<close>, \<open>tl.Dense\<close> is called with no
  keyword argument at all. The head is the last argument of the returned \<open>Serial\<close>.
\<close>

theorem Policy_head_kernel_initializer:
  "callee (last (call_args (returned
      (Policy symbolic pd (map_option pure_fn pbody) (map_option pure_fn pnormalizer)
         head_init_range mode w)))) = (''tl'', ''Dense'')
   \<and>
   map_of (call_kwargs (last (call_args (returned
      (Policy symbolic pd (map_option pure_fn pbody) (map_option pure_fn pnormalizer)
         head_init_range mode w))))) ''kernel_initializer'' =
     (if head_init_range \<noteq> PNone
      then Some (Call ''tl'' ''RandomUniformInitializer'' [] [(''lim'', head_init_range)])
      else None)
   \<and>
   (''kernel_initializer'' \<in> fst ` set (call_kwargs (last (call_args (returned
      (Policy symbolic pd (map_option pure_fn pbody) (map_option pure_fn pnormalizer)
         head_init_range mode w)))))) = (head_init_range \<noteq> PNone)
   \<and>
   (call_kwargs (last (call_args (returned
      (Policy symbolic pd (map_option pure_fn pbody) (map_option pure_fn pnormalizer)
         head_init_range mode w)))) = []) = (head_init_range = PNone)"
  by (simp add: Policy_symbolic or_empty_pure ret_apply returned_def)

text \<open>
  C8. \<open>InputsTest.t5_gin_config\<close> binds the gin parameter \<open>unsupervised.preprocessors\<close>
  to the list of the four T5 preprocessors \<open>select_random_chunk\<close>,
  \<open>reduce_concat_tokens\<close>, \<open>split_tokens\<close>, \<open>denoise\<close>, in this order: whatever the store
  held before, the method returns and the store then binds the parameter to that list.
\<close>

theorem t5_gin_config_preprocessors:
  "fst (t5_gin_config gin_library store) = Inr PNone
   \<and>
   map_of (snd (t5_gin_config gin_library store)) ''unsupervised.preprocessors'' =
     Some (PList [Attr ''t5_processors'' ''select_random_chunk'',
                  Attr ''t5_processors'' ''reduce_concat_tokens'',
                  Attr ''t5_processors'' ''split_tokens'',
                  Attr ''t5_processors'' ''denoise''])"
  by (simp add: t5_gin_config_def Let_def gin_bind gin_other ret_apply update_conv')

text \<open>
  C10. For each of the three factories, \<open>body=None\<close> is the same as a body that returns
  the empty layer list, and likewise for \<open>normalizer=None\<close>, whatever the library does;
  with both left out the returned network holds the head layers only, for example
  \<open>Policy(d) = tl.Serial([], [], tl.Dense(d.n_inputs))\<close>.
\<close>

theorem None_is_empty_layers:
  "Policy ext pd None normalizer head_init_range mode =
     Policy ext pd (Some (\<lambda>mode. ret (PList []))) normalizer head_init_range mode
   \<and>
   Policy ext pd body None head_init_range mode =
     Policy ext pd body (Some (\<lambda>mode. ret (PList []))) head_init_range mode
   \<and>
   Value ext None normalizer inject_actions n_layers idim mode =
     Value ext (Some (\<lambda>mode. ret (PList []))) normalizer inject_actions n_layers idim mode
   \<and>
   Value ext body None inject_actions n_layers idim mode =
     Value ext body (Some (\<lambda>mode. ret (PList []))) inject_actions n_layers idim mode
   \<and>
   PolicyAndValue ext pd None policy_top value_top normalizer head_init_range mode =
     PolicyAndValue ext pd (Some (\<lambda>mode. ret (PList []))) policy_top value_top normalizer
       head_init_range mode
   \<and>
   PolicyAndValue ext pd body policy_top value_top None head_init_range mode =
     PolicyAndValue ext pd body policy_top value_top (Some (\<lambda>mode. ret (PList [])))
       head_init_range mode
   \<and>
   Policy symbolic pd None None PNone (PStr ''train'') w =
     (Inr (Call ''tl'' ''Serial''
             [PList [], PList [], Call ''tl'' ''Dense'' [PInt (n_inputs pd)] []] []), w)
   \<and>
   Value symbolic None None False 1 64 (PStr ''train'') w =
     (Inr (Call ''tl'' ''Serial''
             [PList [], PList [], PList [], Call ''tl'' ''Dense'' [PInt 1] []] []), w)
   \<and>
   PolicyAndValue symbolic pd None (\<lambda>d. pure_fn (ptop d)) (pure_fn vtop) None PNone
       (PStr ''train'') w =
     (Inr (Call ''tl'' ''Serial''
             [PList [], PList [],
              Call ''tl'' ''Branch'' [ptop pd (PStr ''train''), vtop (PStr ''train'')] []] []), w)"
  by (simp add: Policy_def Value_def PolicyAndValue_def Let_def)
     (simp add: symbolic_def ActionInjector_def pure_fn_def ret_apply)

section \<open>The library names a factory calls\<close>

lemma keeps_ret: "keeps S (ret x)"
  by (simp add: keeps_def ret_def)

lemma keeps_bnd:
  assumes "keeps S c" and "\<And>x. keeps S (g x)"
  shows "keeps S (bnd c g)"
  unfolding keeps_def
proof (intro allI impI)
  fix w lg
  assume start: "tl_names lg \<subseteq> S"
  obtain r w' lg' where run: "c (w, lg) = (r, (w', lg'))"
    by (metis surj_pair)
  from assms(1) start run have mid: "tl_names lg' \<subseteq> S"
    unfolding keeps_def by (metis snd_conv)
  show "tl_names (snd (snd (bnd c g (w, lg)))) \<subseteq> S"
  proof (cases r)
    case (Inl e)
    with run mid show ?thesis by (simp add: bnd_def)
  next
    case (Inr x)
    from assms(2) [of x] mid have "tl_names (snd (snd (g x (w', lg')))) \<subseteq> S"
      unfolding keeps_def by blast
    with run Inr show ?thesis by (simp add: bnd_def)
  qed
qed

lemma tl_names_snoc:
  "tl_names (lg @ [(m, f, r)]) = (if m = ''tl'' then insert f (tl_names lg) else tl_names lg)"
  by (simp add: tl_names_def)

lemma keeps_logged_tl: "f \<in> S \<Longrightarrow> keeps S (logged ext ''tl'' f args kw)"
  by (simp add: keeps_def logged_def tl_names_snoc split: prod.splits)

lemma keeps_logged_models: "keeps S (logged ext ''models'' f args kw)"
  by (simp add: keeps_def logged_def tl_names_snoc split: prod.splits)

lemma keeps_logged_fn: "keeps S (logged_fn name g x)"
  by (simp add: keeps_def logged_fn_def tl_names_snoc split: prod.splits)

lemma keeps_or_empty: "keeps S (or_empty (map_option (logged_fn name) g) mode)"
  by (cases g) (simp_all add: or_empty_def keeps_ret keeps_logged_fn)

lemma keeps_head_kwargs:
  "keeps tl_surface
     (if head_init_range \<noteq> PNone
      then bnd (logged ext ''tl'' ''RandomUniformInitializer'' [] [(''lim'', head_init_range)])
             (\<lambda>init. ret (AList.update ''kernel_initializer'' init []))
      else ret [])"
  by (simp add: keeps_ret keeps_bnd keeps_logged_tl tl_surface_def)

lemma Policy_or_empty:
  "Policy ext pd body normalizer head_init_range mode =
     bnd (if head_init_range \<noteq> PNone
          then bnd (ext ''tl'' ''RandomUniformInitializer'' [] [(''lim'', head_init_range)])
                 (\<lambda>init. ret (AList.update ''kernel_initializer'' init []))
          else ret [])
       (\<lambda>head_kwargs.
     bnd (or_empty normalizer mode) (\<lambda>n.
     bnd (or_empty body mode) (\<lambda>b.
     bnd (ext ''tl'' ''Dense'' [PInt (n_inputs pd)] head_kwargs) (\<lambda>head.
     ext ''tl'' ''Serial'' [n, b, head] []))))"
  by (simp add: Policy_def Let_def or_empty_def split: option.split)

lemma Value_or_empty:
  "Value ext body normalizer inject_actions n_layers idim mode =
     bnd (or_empty normalizer mode) (\<lambda>n.
     bnd (or_empty body mode) (\<lambda>b.
     bnd (ActionInjector ext inject_actions n_layers idim mode) (\<lambda>inj.
     bnd (ext ''tl'' ''Dense'' [PInt 1] []) (\<lambda>head.
     ext ''tl'' ''Serial'' [n, b, inj, head] []))))"
  by (simp add: Value_def Let_def or_empty_def split: option.split)

lemma PolicyAndValue_or_empty:
  "PolicyAndValue ext pd body policy_top value_top normalizer head_init_range mode =
     bnd (if head_init_range \<noteq> PNone
          then bnd (ext ''tl'' ''RandomUniformInitializer'' [] [(''lim'', head_init_range)])
                 (\<lambda>init. ret (AList.update ''kernel_initializer'' init []))
          else ret [])
       (\<lambda>head_kwargs.
     bnd (or_empty normalizer mode) (\<lambda>n.
     bnd (or_empty body mode) (\<lambda>b.
     bnd (policy_top pd mode) (\<lambda>p.
     bnd (value_top mode) (\<lambda>v.
     bnd (ext ''tl'' ''Branch'' [p, v] []) (\<lambda>branch.
     ext ''tl'' ''Serial'' [n, b, branch] []))))))"
  by (simp add: PolicyAndValue_def Let_def or_empty_def split: option.split)

lemma keeps_Policy:
  assumes "\<And>x. keeps tl_surface (or_empty body x)"
    and "\<And>x. keeps tl_surface (or_empty normalizer x)"
  shows "keeps tl_surface (Policy (logged ext) pd body normalizer head_init_range mode)"
  unfolding Policy_or_empty
  by (intro keeps_bnd keeps_head_kwargs assms keeps_logged_tl) (simp_all add: tl_surface_def)

lemma keeps_ActionInjector:
  "keeps tl_surface (ActionInjector (logged ext) inject_actions n_layers idim mode)"
  unfolding ActionInjector_def
  by (cases inject_actions)
     (simp_all add: keeps_ret keeps_bnd keeps_logged_tl keeps_logged_models tl_surface_def)

lemma keeps_Value:
  assumes "\<And>x. keeps tl_surface (or_empty body x)"
    and "\<And>x. keeps tl_surface (or_empty normalizer x)"
  shows "keeps tl_surface (Value (logged ext) body normalizer inject_actions n_layers idim mode)"
  unfolding Value_or_empty
  by (intro keeps_bnd keeps_ActionInjector assms keeps_logged_tl) (simp_all add: tl_surface_def)

lemma keeps_PolicyAndValue:
  assumes "\<And>x. keeps tl_surface (or_empty body x)"
    and "\<And>x. keeps tl_surface (or_empty normalizer x)"
    and "\<And>d x. keeps tl_surface (policy_top d x)"
    and "\<And>x. keeps tl_surface (value_top x)"
  shows "keeps tl_surface
     (PolicyAndValue (logged ext) pd body policy_top value_top normalizer head_init_range mode)"
  unfolding PolicyAndValue_or_empty
  by (intro keeps_bnd keeps_head_kwargs assms keeps_logged_tl) (simp_all add: tl_surface_def)

lemma keeps_or_empty_None: "keeps S (or_empty None x)"
  by (simp add: or_empty_def keeps_ret)

lemma keeps_start: "keeps S c \<Longrightarrow> tl_names (snd (snd (c (w, [])))) \<subseteq> S"
  by (simp add: keeps_def tl_names_def)

text \<open>
  C7. The only names of the layer library that a call of \<open>Policy\<close>, \<open>Value\<close> or
  \<open>PolicyAndValue\<close> invokes are \<open>Serial\<close>, \<open>Parallel\<close>, \<open>Branch\<close>, \<open>Add\<close>, \<open>Dense\<close> and
  \<open>RandomUniformInitializer\<close>: whatever the library and the callables passed in do, the log
  of a call holds no other name of \<open>tl\<close>. The last conjunct is \<open>PolicyAndValue\<close> with its
  default heads, which are \<open>Policy\<close> and \<open>Value\<close> themselves.
\<close>

theorem factories_call_tl_surface_only:
  "tl_names (snd (snd (Policy (logged ext) pd
       (map_option (logged_fn ''body'') body)
       (map_option (logged_fn ''normalizer'') normalizer) head_init_range mode (w, []))))
     \<subseteq> tl_surface
   \<and>
   tl_names (snd (snd (Value (logged ext)
       (map_option (logged_fn ''body'') body)
       (map_option (logged_fn ''normalizer'') normalizer)
       inject_actions n_layers idim mode (w, []))))
     \<subseteq> tl_surface
   \<and>
   tl_names (snd (snd (PolicyAndValue (logged ext) pd
       (map_option (logged_fn ''body'') body)
       (\<lambda>d. logged_fn ''policy_top'' (policy_top d)) (logged_fn ''value_top'' value_top)
       (map_option (logged_fn ''normalizer'') normalizer) head_init_range mode (w, []))))
     \<subseteq> tl_surface
   \<and>
   tl_names (snd (snd (PolicyAndValue (logged ext) pd
       (map_option (logged_fn ''body'') body)
       (default_policy_top (logged ext)) (default_value_top (logged ext))
       (map_option (logged_fn ''normalizer'') normalizer) head_init_range mode (w, []))))
     \<subseteq> tl_surface"
proof (intro conjI)
  show "tl_names (snd (snd (Policy (logged ext) pd
       (map_option (logged_fn ''body'') body)
       (map_option (logged_fn ''normalizer'') normalizer) head_init_range mode (w, []))))
     \<subseteq> tl_surface"
    by (rule keeps_start) (rule keeps_Policy; rule keeps_or_empty)
  show "tl_names (snd (snd (Value (logged ext)
       (map_option (logged_fn ''body'') body)
       (map_option (logged_fn ''normalizer'') normalizer)
       inject_actions n_layers idim mode (w, []))))
     \<subseteq> tl_surface"
    by (rule keeps_start) (rule keeps_Value; rule keeps_or_empty)
  show "tl_names (snd (snd (PolicyAndValue (logged ext) pd
       (map_option (logged_fn ''body'') body)
       (\<lambda>d. logged_fn ''policy_top'' (policy_top d)) (logged_fn ''value_top'' value_top)
       (map_option (logged_fn ''normalizer'') normalizer) head_init_range mode (w, []))))
     \<subseteq> tl_surface"
    by (rule keeps_start)
       (rule keeps_PolicyAndValue; (rule keeps_or_empty | rule keeps_logged_fn))
  show "tl_names (snd (snd (PolicyAndValue (logged ext) pd
       (map_option (logged_fn ''body'') body)
       (default_policy_top (logged ext)) (default_value_top (logged ext))
       (map_option (logged_fn ''normalizer'') normalizer) head_init_range mode (w, []))))
     \<subseteq> tl_surface"
    unfolding default_policy_top_def default_value_top_def
    by (rule keeps_start)
       (rule keeps_PolicyAndValue;
        (rule keeps_or_empty | rule keeps_Policy | rule keeps_Value | rule keeps_or_empty_None)+)
qed

section \<open>Purity\<close>











section \<open>Exceptions\<close>

lemma raised_snoc:
  "raised (lg @ [(m, f, r)]) = raised lg @ (case r of Inl e \<Rightarrow> [e] | Inr v \<Rightarrow> [])"
  by (simp add: raised_def)

lemma propagated_returns:
  assumes "propagated (Inr x, (w, lg))"
  shows "raised lg = []"
proof (rule ccontr)
  assume "raised lg \<noteq> []"
  then obtain e where "e \<in> set (raised lg)"
    by (cases "raised lg") auto
  with assms show False
    by (auto simp: propagated_def)
qed

lemma propagates_ret: "propagates (ret x)"
  by (simp add: propagates_def propagated_def ret_def)

lemma propagates_bnd:
  assumes "propagates c" and "\<And>x. propagates (g x)"
  shows "propagates (bnd c g)"
  unfolding propagates_def
proof (intro allI impI)
  fix w lg
  assume start: "raised lg = []"
  obtain r w' lg' where run: "c (w, lg) = (r, (w', lg'))"
    by (metis surj_pair)
  from assms(1) start have first: "propagated (c (w, lg))"
    by (simp add: propagates_def)
  show "propagated (bnd c g (w, lg))"
  proof (cases r)
    case (Inl e)
    with run first show ?thesis by (simp add: bnd_def propagated_def)
  next
    case (Inr x)
    with run first have "raised lg' = []"
      by (simp add: propagated_returns)
    with assms(2) [of x] have "propagated (g x (w', lg'))"
      by (simp add: propagates_def)
    with run Inr show ?thesis by (simp add: bnd_def)
  qed
qed

lemma propagates_logged: "propagates (logged ext m f args kw)"
  by (auto simp: propagates_def propagated_def logged_def raised_snoc
        split: prod.splits sum.splits)

lemma propagates_logged_fn: "propagates (logged_fn name g x)"
  by (auto simp: propagates_def propagated_def logged_fn_def raised_snoc
        split: prod.splits sum.splits)

lemma map_sum_id_Inl: "(map_sum id h r = Inl e) = (r = Inl e)"
  by (cases r) simp_all

lemma propagates_logged_step: "propagates (logged_step nxt it)"
  by (auto simp: propagates_def propagated_def logged_step_def raised_snoc map_sum_id_Inl
        split: prod.splits sum.splits)

lemma propagates_case_option:
  assumes "propagates a" and "\<And>x. propagates (b x)"
  shows "propagates (case r of None \<Rightarrow> a | Some x \<Rightarrow> b x)"
  using assms by (cases r) simp_all

lemma propagates_case_prod:
  assumes "\<And>a b. propagates (f a b)"
  shows "propagates (case p of (a, b) \<Rightarrow> f a b)"
  using assms by (cases p) simp

lemma propagates_case_prod_app:
  assumes "\<And>a b. propagates (f a b x)"
  shows "propagates ((case p of (a, b) \<Rightarrow> f a b) x)"
  using assms by (cases p) simp

lemma propagates_bnd_opt:
  assumes "propagates c" and "\<And>x. propagates (g x)"
  shows "propagates (bnd_opt c g)"
  unfolding bnd_opt_def
  by (intro propagates_bnd propagates_case_option propagates_ret assms)

lemma propagates_for_each:
  assumes "\<And>x. propagates (body x)"
  shows "propagates (for_each xs body)"
  by (induction xs) (simp_all add: propagates_ret propagates_bnd assms)

lemma propagates_for_in:
  assumes "propagates (nxt it)" and "\<And>s x. propagates (body s x)"
  shows "propagates (for_in fuel nxt it body s)"
proof (induction fuel arbitrary: s)
  case 0
  show ?case by (simp add: propagates_ret)
next
  case (Suc fuel)
  show ?case
    unfolding for_in.simps
    by (intro propagates_bnd propagates_case_option propagates_ret assms Suc.IH)
qed

lemma propagates_or_empty: "propagates (or_empty (map_option (logged_fn name) g) mode)"
  by (cases g) (simp_all add: or_empty_def propagates_ret propagates_logged_fn)

lemma propagates_or_empty_None: "propagates (or_empty None mode)"
  by (simp add: or_empty_def propagates_ret)

lemma propagates_head_kwargs:
  "propagates
     (if head_init_range \<noteq> PNone
      then bnd (logged ext ''tl'' ''RandomUniformInitializer'' [] [(''lim'', head_init_range)])
             (\<lambda>init. ret (AList.update ''kernel_initializer'' init []))
      else ret [])"
  by (simp add: propagates_ret propagates_bnd propagates_logged)

lemma propagates_Policy:
  assumes "\<And>x. propagates (or_empty body x)"
    and "\<And>x. propagates (or_empty normalizer x)"
  shows "propagates (Policy (logged ext) pd body normalizer head_init_range mode)"
  unfolding Policy_or_empty
  by (intro propagates_bnd propagates_head_kwargs assms propagates_logged)

lemma propagates_ActionInjector:
  "propagates (ActionInjector (logged ext) inject_actions n_layers idim mode)"
  unfolding ActionInjector_def
  by (cases inject_actions) (simp_all add: propagates_ret propagates_bnd propagates_logged)

lemma propagates_Value:
  assumes "\<And>x. propagates (or_empty body x)"
    and "\<And>x. propagates (or_empty normalizer x)"
  shows "propagates (Value (logged ext) body normalizer inject_actions n_layers idim mode)"
  unfolding Value_or_empty
  by (intro propagates_bnd propagates_ActionInjector assms propagates_logged)

lemma propagates_PolicyAndValue:
  assumes "\<And>x. propagates (or_empty body x)"
    and "\<And>x. propagates (or_empty normalizer x)"
    and "\<And>d x. propagates (policy_top d x)"
    and "\<And>x. propagates (value_top x)"
  shows "propagates
     (PolicyAndValue (logged ext) pd body policy_top value_top normalizer head_init_range mode)"
  unfolding PolicyAndValue_or_empty
  by (intro propagates_bnd propagates_head_kwargs assms propagates_logged)

lemma propagates_t5_gin_config: "propagates (t5_gin_config (logged ext))"
  unfolding t5_gin_config_def Let_def
  by (intro propagates_bnd propagates_logged propagates_ret)

lemma propagates_c4_dataset: "propagates (c4_dataset (logged ext) split)"
  unfolding c4_dataset_def by (rule propagates_logged)

lemma propagates_spm_path: "propagates (spm_path (logged ext))"
  unfolding spm_path_def by (rule propagates_logged)

lemma propagates_first_example: "propagates (first_example (logged ext) dataset)"
  unfolding first_example_def
  by (intro propagates_bnd propagates_logged)

lemma propagates_load_c4_dataset: "propagates (load_c4_dataset (logged ext) split)"
  unfolding load_c4_dataset_def
  by (intro propagates_bnd propagates_logged propagates_c4_dataset)

lemma propagates_setUp: "propagates (setUp (logged ext))"
  unfolding setUp_def
  by (intro propagates_bnd propagates_logged propagates_ret)

lemma propagates_test_batch_data: "propagates (test_batch_data (logged ext))"
  unfolding test_batch_data_def Let_def
  by (intro propagates_bnd propagates_logged propagates_ret)

lemma propagates_test_pad_to_max_dims: "propagates (test_pad_to_max_dims (logged ext))"
  unfolding test_pad_to_max_dims_def
  by (intro propagates_bnd propagates_logged propagates_ret)

lemma propagates_test_c4_bare_preprocess_fun:
  "propagates (test_c4_bare_preprocess_fun (logged ext))"
  unfolding test_c4_bare_preprocess_fun_def
  by (intro propagates_bnd propagates_logged propagates_ret propagates_c4_dataset
        propagates_first_example)

lemma propagates_examine_processed_dataset:
  "propagates (examine_processed_dataset fuel (logged ext) (logged_step nxt) proc_dataset)"
  unfolding examine_processed_dataset_def Let_def
  by (intro propagates_bnd propagates_logged propagates_for_in propagates_logged_step
        propagates_case_prod_app propagates_ret)

lemma propagates_test_c4_preprocess:
  "propagates (test_c4_preprocess fuel (logged ext) (logged_step nxt))"
  unfolding test_c4_preprocess_def Let_def
  by (intro propagates_bnd propagates_bnd_opt propagates_logged propagates_for_in
        propagates_logged_step propagates_case_prod propagates_ret propagates_for_each
        propagates_load_c4_dataset propagates_examine_processed_dataset)

lemma propagates_test_c4: "propagates (test_c4 (logged ext))"
  unfolding test_c4_def
  by (intro propagates_bnd propagates_logged propagates_ret)

lemma propagates_test_denoising:
  "propagates (test_c4_bare_preprocess_fun_denoising_objective (logged ext))"
  unfolding test_c4_bare_preprocess_fun_denoising_objective_def Let_def
  by (intro propagates_bnd propagates_logged propagates_ret propagates_c4_dataset
        propagates_first_example propagates_t5_gin_config propagates_spm_path)

lemma propagates_test_c4_pretrain: "propagates (test_c4_pretrain (logged ext))"
  unfolding test_c4_pretrain_def
  by (intro propagates_bnd propagates_logged propagates_ret propagates_t5_gin_config)

lemma propagates_start: "propagates c \<Longrightarrow> propagated (c (w, []))"
  by (simp add: propagates_def raised_def)

text \<open>
  C9. Neither file handles an exception: in every call of \<open>Policy\<close>, \<open>Value\<close>,
  \<open>PolicyAndValue\<close> or of a method of \<open>InputsTest\<close>, an exception that a call of a library
  (a layer constructor, a data set, gin, the T5 preprocessors, an assertion, a callable
  passed in) raises is the outcome of the call, unchanged; it is the only exception
  raised and nothing runs after it. This holds for any library, any callables, any
  iterator and any fuel.
\<close>

theorem exceptions_propagate:
  "propagated (Policy (logged ext) pd
       (map_option (logged_fn ''body'') body)
       (map_option (logged_fn ''normalizer'') normalizer) head_init_range mode (w, []))
   \<and>
   propagated (Value (logged ext)
       (map_option (logged_fn ''body'') body)
       (map_option (logged_fn ''normalizer'') normalizer)
       inject_actions n_layers idim mode (w, []))
   \<and>
   propagated (PolicyAndValue (logged ext) pd
       (map_option (logged_fn ''body'') body)
       (\<lambda>d. logged_fn ''policy_top'' (policy_top d)) (logged_fn ''value_top'' value_top)
       (map_option (logged_fn ''normalizer'') normalizer) head_init_range mode (w, []))
   \<and>
   propagated (setUp (logged ext) (w, []))
   \<and>
   propagated (test_batch_data (logged ext) (w, []))
   \<and>
   propagated (test_pad_to_max_dims (logged ext) (w, []))
   \<and>
   propagated (test_c4_bare_preprocess_fun (logged ext) (w, []))
   \<and>
   propagated (test_c4_preprocess fuel (logged ext) (logged_step nxt) (w, []))
   \<and>
   propagated (test_c4 (logged ext) (w, []))
   \<and>
   propagated (t5_gin_config (logged ext) (w, []))
   \<and>
   propagated (test_c4_bare_preprocess_fun_denoising_objective (logged ext) (w, []))
   \<and>
   propagated (test_c4_pretrain (logged ext) (w, []))"
  by (intro conjI propagates_start propagates_Policy propagates_Value
        propagates_PolicyAndValue propagates_or_empty propagates_logged_fn
        propagates_setUp propagates_test_batch_data propagates_test_pad_to_max_dims
        propagates_test_c4_bare_preprocess_fun propagates_test_c4_preprocess
        propagates_test_c4 propagates_t5_gin_config propagates_test_denoising
        propagates_test_c4_pretrain)

theorem exceptions_propagate_witness:
  "Call ''builtins'' ''RuntimeError'' [PStr ''Dense''] []
     \<in> set (raised (snd (snd (Policy (logged (failing ''Dense'')) \<lparr>n_inputs = 4\<rparr>
            None None PNone (PStr ''train'') ((), [])))))
   \<and>
   fst (Policy (logged (failing ''Dense'')) \<lparr>n_inputs = 4\<rparr>
          None None PNone (PStr ''train'') ((), [])) =
     Inl (Call ''builtins'' ''RuntimeError'' [PStr ''Dense''] [])
   \<and>
   Call ''builtins'' ''RuntimeError'' [PStr ''Dense''] []
     \<in> set (raised (snd (snd (test_c4_preprocess (Suc 0) (logged (failing ''Dense''))
            (logged_step (\<lambda>it w. (Inl (Call ''builtins'' ''RuntimeError'' [PStr ''Dense''] []), w)))
            ((), [])))))
   \<and>
   fst (test_c4_preprocess (Suc 0) (logged (failing ''Dense''))
          (logged_step (\<lambda>it w. (Inl (Call ''builtins'' ''RuntimeError'' [PStr ''Dense''] []), w)))
          ((), [])) =
     Inl (Call ''builtins'' ''RuntimeError'' [PStr ''Dense''] [])"
proof -
  let ?e = "Call ''builtins'' ''RuntimeError'' [PStr ''Dense''] []"
  let ?policy = "Policy (logged (failing ''Dense'')) \<lparr>n_inputs = 4\<rparr>
                   None None PNone (PStr ''train'') ((), [])"
  let ?test = "test_c4_preprocess (Suc 0) (logged (failing ''Dense''))
                 (logged_step (\<lambda>it w. (Inl ?e, w))) ((), [])"
  have all: "propagated ?policy \<and> propagated ?test"
    using exceptions_propagate [where ext = "failing ''Dense''" and w = "()"
        and pd = "\<lparr>n_inputs = 4\<rparr>" and body = None and normalizer = None
        and head_init_range = PNone and mode = "PStr ''train''" and fuel = "Suc 0"
        and nxt = "\<lambda>it w. (Inl ?e, w)"]
    by simp
  have policy_log: "snd (snd ?policy) = [(''tl'', ''Dense'', Inl ?e)]"
    by (simp add: Policy_def Let_def logged_def failing_def bnd_def ret_def)
  have test_log: "raised (snd (snd ?test)) = [?e]"
    by (simp add: test_c4_preprocess_def load_c4_dataset_def c4_dataset_def Let_def
          bnd_opt_def logged_def logged_step_def failing_def bnd_def ret_def raised_def)
  have m1: "?e \<in> set (raised (snd (snd ?policy)))"
    by (simp add: policy_log raised_def)
  have m2: "?e \<in> set (raised (snd (snd ?test)))"
    by (simp add: test_log)
  from all m1 have r1: "fst ?policy = Inl ?e"
    unfolding propagated_def by blast
  from all m2 have r2: "fst ?test = Inl ?e"
    unfolding propagated_def by blast
  from m1 r1 m2 r2 show ?thesis by blast
qed

end
